theory Spec2Isabelle
  imports Complex_Main "HOL-Library.Sublist"
begin

section \<open>Values exchanged with the service\<close>

text \<open>
  The handlers of \<^verbatim>\<open>Scripts/whisper_service.py\<close> work on what Flask's
  \<^verbatim>\<open>request.get_json()\<close> returns and on dictionaries built from literals. Both are
  JSON-shaped Python values: \<^verbatim>\<open>None\<close>, booleans, integers, floats, strings, lists
  and dictionaries keyed by strings. A float is kept as an exact real; a string is a list
  of characters read as code points below 256; a dictionary is an association list whose
  first binding of a key is the dictionary's value for it.
\<close>

datatype json =
    JNull
  | JBool bool
  | JInt int
  | JFloat real
  | JStr string
  | JList "json list"
  | JObj "(string \<times> json) list"

type_synonym dict = "(string \<times> json) list"

text \<open>
  A raised exception carries its class name and the text that \<^verbatim>\<open>str(e)\<close> gives. The
  texts follow CPython; the handlers only copy them into the body of a 500 response.
\<close>

datatype exn = Exn (exn_class: string) (str_exn: string)

definition bind_exn :: "exn + 'a \<Rightarrow> ('a \<Rightarrow> exn + 'b) \<Rightarrow> exn + 'b" where
  "bind_exn m f = (case m of Inl e \<Rightarrow> Inl e | Inr x \<Rightarrow> f x)"

text \<open>Python's truth value of a JSON-shaped value (\<^verbatim>\<open>if x:\<close>, \<^verbatim>\<open>a and b\<close>).\<close>

fun truthy :: "json \<Rightarrow> bool" where
  "truthy JNull = False"
| "truthy (JBool b) = b"
| "truthy (JInt i) = (i \<noteq> 0)"
| "truthy (JFloat x) = (x \<noteq> 0)"
| "truthy (JStr s) = (s \<noteq> [])"
| "truthy (JList xs) = (xs \<noteq> [])"
| "truthy (JObj kvs) = (kvs \<noteq> [])"

definition type_name :: "json \<Rightarrow> string" where
  "type_name v = (case v of
       JNull \<Rightarrow> ''NoneType'' | JBool _ \<Rightarrow> ''bool'' | JInt _ \<Rightarrow> ''int'' | JFloat _ \<Rightarrow> ''float''
     | JStr _ \<Rightarrow> ''str'' | JList _ \<Rightarrow> ''list'' | JObj _ \<Rightarrow> ''dict'')"

text \<open>
  \<^verbatim>\<open>key in data\<close> with a string key: key membership for a dictionary, element membership
  for a list, substring test for a string, and \<^verbatim>\<open>TypeError\<close> for a value that is not a
  container.
\<close>

definition py_in :: "string \<Rightarrow> json \<Rightarrow> exn + bool" where
  "py_in key data = (case data of
       JObj kvs \<Rightarrow> Inr (map_of kvs key \<noteq> None)
     | JList xs \<Rightarrow> Inr (JStr key \<in> set xs)
     | JStr s \<Rightarrow> Inr (sublist key s)
     | _ \<Rightarrow> Inl (Exn ''TypeError''
              (''argument of type '' @ [CHR 0x27] @ type_name data @ [CHR 0x27] @ '' is not iterable'')))"

text \<open>\<^verbatim>\<open>data[key]\<close> with a string key: only a dictionary holding the key answers.\<close>

definition py_getitem :: "json \<Rightarrow> string \<Rightarrow> exn + json" where
  "py_getitem data key = (case data of
       JObj kvs \<Rightarrow> (case map_of kvs key of
                      Some v \<Rightarrow> Inr v
                    | None \<Rightarrow> Inl (Exn ''KeyError'' ([CHR 0x27] @ key @ [CHR 0x27])))
     | JList _ \<Rightarrow> Inl (Exn ''TypeError'' ''list indices must be integers or slices, not str'')
     | JStr _ \<Rightarrow> Inl (Exn ''TypeError'' ''string indices must be integers'')
     | _ \<Rightarrow> Inl (Exn ''TypeError''
              ([CHR 0x27] @ type_name data @ [CHR 0x27] @ '' object is not subscriptable'')))"

text \<open>\<^verbatim>\<open>data.get(key, default)\<close>: a method of dictionaries only.\<close>

definition py_get :: "json \<Rightarrow> string \<Rightarrow> json \<Rightarrow> exn + json" where
  "py_get data key dflt = (case data of
       JObj kvs \<Rightarrow> Inr (case map_of kvs key of Some v \<Rightarrow> v | None \<Rightarrow> dflt)
     | _ \<Rightarrow> Inl (Exn ''AttributeError''
              ([CHR 0x27] @ type_name data @ [CHR 0x27] @ '' object has no attribute '' @ [CHR 0x27] @ ''get'' @ [CHR 0x27])))"

text \<open>\<^verbatim>\<open>d.get(key, default)\<close> and \<^verbatim>\<open>d[key] = v\<close> on a value known to be a dictionary.\<close>

definition dict_get :: "dict \<Rightarrow> string \<Rightarrow> json \<Rightarrow> json" where
  "dict_get d key dflt = (case map_of d key of Some v \<Rightarrow> v | None \<Rightarrow> dflt)"

fun dict_set :: "dict \<Rightarrow> string \<Rightarrow> json \<Rightarrow> dict" where
  "dict_set [] key v = [(key, v)]"
| "dict_set ((k, w) # d) key v = (if k = key then (key, v) # d else (k, w) # dict_set d key v)"

subsection \<open>Strings\<close>

text \<open>
  \<^verbatim>\<open>str.strip()\<close> without argument removes the leading and the trailing run of whitespace.
  Below code point 256 Python's whitespace is: tab, line feed, vertical tab, form feed,
  carriage return, the four separators 0x1C to 0x1F, space, next line (0x85) and
  no-break space (0xA0).
\<close>

definition is_space :: "char \<Rightarrow> bool" where
  "is_space c = (of_char c \<in> {9, 10, 11, 12, 13, 28, 29, 30, 31, 32, 133, 160 :: nat})"

definition py_strip :: "string \<Rightarrow> string" where
  "py_strip s = rev (dropWhile is_space (rev (dropWhile is_space s)))"

subsection \<open>Audio buffers\<close>

text \<open>
  A numpy array is its shape and its samples in row-major order; a sample of a
  \<^verbatim>\<open>float32\<close> array is a number or not-a-number. Rounding to 32 bits is not modelled:
  the handler never computes with a sample. \<^verbatim>\<open>len\<close> of an array is its first dimension,
  and a zero-dimensional array has none.
\<close>

datatype sample = Sample real | NaN

datatype ndarray = NdArray (shape: "nat list") (samples: "sample list")

definition py_len :: "ndarray \<Rightarrow> exn + nat" where
  "py_len a = (case shape a of
       [] \<Rightarrow> Inl (Exn ''TypeError'' ''len() of unsized object'')
     | n # _ \<Rightarrow> Inr n)"

section \<open>The model and its raw result\<close>

text \<open>
  The loaded pipeline is a callable of the transformers library. It is called with a
  dictionary holding the buffer and its sampling rate, and with the generation keyword
  arguments; it raises or returns a raw result. The handler tests the raw result for the
  keys \<^verbatim>\<open>chunks\<close> and \<^verbatim>\<open>text\<close> and each chunk for the key \<^verbatim>\<open>timestamp\<close>, for a
  timestamp that is \<^verbatim>\<open>None\<close>, and for a bound of the pair that is \<^verbatim>\<open>None\<close>: these are
  the optional parts of the types below. A chunk always carries its text, and a timestamp
  that is present and not \<^verbatim>\<open>None\<close> is a pair.
\<close>

datatype timestamp =
    NoTimestamp
  | NullTimestamp
  | TimePair "real option" "real option"

record chunk =
  chunk_text :: string
  chunk_timestamp :: timestamp

record raw_result =
  result_text :: "string option"
  result_chunks :: "chunk list option"

record pipeline_input =
  array :: ndarray
  sampling_rate :: json

type_synonym pipeline = "pipeline_input \<Rightarrow> dict \<Rightarrow> exn + raw_result"

text \<open>The two globals of the module: \<^verbatim>\<open>whisper_pipeline = None\<close> and \<^verbatim>\<open>model_info = {}\<close>.\<close>

record state =
  whisper_pipeline :: "pipeline option"
  model_info :: dict

definition initial_state :: state where
  "initial_state = \<lparr>whisper_pipeline = None, model_info = []\<rparr>"

section \<open>Model initialisation\<close>

text \<open>
  \<^verbatim>\<open>initialize_model\<close> calls torch and transformers. What these libraries answer is a
  parameter: whether CUDA is available, the two \<^verbatim>\<open>from_pretrained\<close> loaders,
  \<^verbatim>\<open>model.to\<close>, the \<^verbatim>\<open>pipeline\<close> factory and the sampling rate of the processor's
  feature extractor. Each call may raise.
\<close>

datatype torch_dtype = Float16 | Float32

definition str_dtype :: "torch_dtype \<Rightarrow> string" where
  "str_dtype t = (case t of Float16 \<Rightarrow> ''torch.float16'' | Float32 \<Rightarrow> ''torch.float32'')"

record load_kwargs =
  kw_torch_dtype :: torch_dtype
  kw_low_cpu_mem_usage :: bool
  kw_use_safetensors :: bool
  kw_cache_dir :: "string option"

record ('m, 'p) library =
  cuda_is_available :: bool
  model_from_pretrained :: "string \<Rightarrow> load_kwargs \<Rightarrow> exn + 'm"
  model_to :: "'m \<Rightarrow> string \<Rightarrow> exn + 'm"
  processor_from_pretrained :: "string \<Rightarrow> string option \<Rightarrow> exn + 'p"
  make_pipeline :: "string \<Rightarrow> 'm \<Rightarrow> 'p \<Rightarrow> torch_dtype \<Rightarrow> string \<Rightarrow> string \<Rightarrow> exn + pipeline"
  feature_extractor_sampling_rate :: "'p \<Rightarrow> int"

text \<open>\<^verbatim>\<open>if model_dir:\<close> holds for a directory that is given and not the empty string.\<close>

definition cache_dir_of :: "string option \<Rightarrow> string option" where
  "cache_dir_of model_dir =
     (case model_dir of None \<Rightarrow> None | Some d \<Rightarrow> if d \<noteq> [] then Some d else None)"

text \<open>
  The function assigns the two globals after every call that may fail has returned, the
  pipeline first; an exception leaves the state as it was and is raised again to the
  caller. The result is the exception, if any, and the state.
\<close>

definition initialize_model ::
    "('m, 'p) library \<Rightarrow> string \<Rightarrow> string \<Rightarrow> string option \<Rightarrow> state \<Rightarrow> exn option \<times> state" where
  "initialize_model lib model_id device model_dir st =
     (let device' = (if device = ''auto''
                     then (if cuda_is_available lib then ''cuda:0'' else ''cpu'')
                     else device);
          dtype = (if cuda_is_available lib then Float16 else Float32);
          load = \<lparr>kw_torch_dtype = dtype, kw_low_cpu_mem_usage = True,
                  kw_use_safetensors = True, kw_cache_dir = cache_dir_of model_dir\<rparr>
      in case model_from_pretrained lib model_id load of
           Inl e \<Rightarrow> (Some e, st)
         | Inr model \<Rightarrow>
      (case model_to lib model device' of
           Inl e \<Rightarrow> (Some e, st)
         | Inr moved \<Rightarrow>
      (case processor_from_pretrained lib model_id (cache_dir_of model_dir) of
           Inl e \<Rightarrow> (Some e, st)
         | Inr processor \<Rightarrow>
      (case make_pipeline lib ''automatic-speech-recognition'' moved processor dtype device' ''word'' of
           Inl e \<Rightarrow> (Some e, st)
         | Inr p \<Rightarrow>
             (None, st\<lparr>whisper_pipeline := Some p,
                       model_info :=
                         [(''model_id'', JStr model_id),
                          (''device'', JStr device'),
                          (''dtype'', JStr (str_dtype dtype)),
                          (''sample_rate'', JInt (feature_extractor_sampling_rate lib processor))]\<rparr>)))))"

text \<open>
  \<^verbatim>\<open>main\<close> initialises the model on the initial globals and starts the server only when
  no exception came back; otherwise the process exits with status 1.
\<close>

definition startup :: "('m, 'p) library \<Rightarrow> string \<Rightarrow> string \<Rightarrow> string option \<Rightarrow> state option" where
  "startup lib model_id device model_dir =
     (case initialize_model lib model_id device model_dir initial_state of
        (Some e, _) \<Rightarrow> None
      | (None, st) \<Rightarrow> Some st)"

section \<open>The request handlers\<close>

type_synonym response = "nat \<times> json"

definition health_check :: "state \<Rightarrow> response" where
  "health_check st =
     (case whisper_pipeline st of
        None \<Rightarrow> (503, JObj [(''status'', JStr ''error''), (''message'', JStr ''Model not initialized'')])
      | Some _ \<Rightarrow> (200, JObj [(''status'', JStr ''healthy''), (''model'', JObj (model_info st))]))"

definition get_model_info :: "state \<Rightarrow> response" where
  "get_model_info st =
     (case whisper_pipeline st of
        None \<Rightarrow> (503, JObj [(''error'', JStr ''Model not initialized'')])
      | Some _ \<Rightarrow> (200, JObj (model_info st)))"

subsection \<open>Transcription: from the request to the model call\<close>

text \<open>
  Lines 153 and 154: \<^verbatim>\<open>'sample_rate' in data and data['sample_rate'] != expected_sr\<close>.
  The comparison of two JSON-shaped values never raises, and its result only decides
  whether a warning is logged. Log records are not part of the model, so what remains of
  the two lines is the exceptions that the membership test and the lookup can raise.
\<close>

definition check_sample_rate :: "json \<Rightarrow> exn + unit" where
  "check_sample_rate data =
     bind_exn (py_in ''sample_rate'' data) (\<lambda>present.
       if present then bind_exn (py_getitem data ''sample_rate'') (\<lambda>declared. Inr ())
       else Inr ())"

text \<open>Lines 157 to 165: the generation keyword arguments.\<close>

definition generate_kwargs :: "json \<Rightarrow> exn + dict" where
  "generate_kwargs data =
     bind_exn (py_get data ''task'' (JStr ''transcribe'')) (\<lambda>task.
       let kwargs = [(''max_new_tokens'', JInt 448),
                     (''task'', task),
                     (''return_timestamps'', JStr ''word'')]
       in bind_exn (py_in ''language'' data) (\<lambda>present.
            if present
            then bind_exn (py_getitem data ''language'') (\<lambda>language.
                   Inr (if truthy language then dict_set kwargs ''language'' language else kwargs))
            else Inr kwargs))"

text \<open>
  Lines 144 to 168, everything the handler does before it calls the pipeline. The
  conversion \<^verbatim>\<open>np.array(data['audio'], dtype=np.float32)\<close> is the parameter \<open>np\<close>.
  The result is an exception, the early 400 response, or the arguments of the call.
  The informational log line of 168 evaluates \<^verbatim>\<open>len(audio_array)\<close>, which raises for a
  zero-dimensional array.
\<close>

definition prepare_call ::
    "(json \<Rightarrow> exn + ndarray) \<Rightarrow> dict \<Rightarrow> exn + json \<Rightarrow> exn + (response + pipeline_input \<times> dict)" where
  "prepare_call np info get_json =
     bind_exn get_json (\<lambda>data.
     bind_exn (py_in ''audio'' data) (\<lambda>has_audio.
       if \<not> has_audio
       then Inr (Inl (400, JObj [(''error'', JStr ''Missing 'audio' field'')]))
       else
         bind_exn (py_getitem data ''audio'') (\<lambda>audio.
         bind_exn (np audio) (\<lambda>audio_array.
         let expected_sr = dict_get info ''sample_rate'' (JInt 16000) in
         bind_exn (check_sample_rate data) (\<lambda>_.
         bind_exn (generate_kwargs data) (\<lambda>kwargs.
         bind_exn (py_len audio_array) (\<lambda>n.
           Inr (Inr (\<lparr>array = audio_array, sampling_rate = expected_sr\<rparr>, kwargs)))))))))"

subsection \<open>Transcription: from the raw result to the response\<close>

text \<open>Lines 176 to 186: the loop appends one dictionary per chunk that has a time pair.\<close>

fun extract_loop :: "chunk list \<Rightarrow> json list \<Rightarrow> json list" where
  "extract_loop [] words = words"
| "extract_loop (c # cs) words =
     (case chunk_timestamp c of
        TimePair start_time end_time \<Rightarrow>
          extract_loop cs
            (words @
             [JObj [(''text'', JStr (py_strip (chunk_text c))),
                    (''start'', JFloat (case start_time of Some t \<Rightarrow> t | None \<Rightarrow> 0)),
                    (''end'', JFloat (case end_time of Some t \<Rightarrow> t | None \<Rightarrow> 0)),
                    (''confidence'', JFloat 1)]])
      | _ \<Rightarrow> extract_loop cs words)"

definition extract_words :: "raw_result \<Rightarrow> json list" where
  "extract_words result =
     (case result_chunks result of None \<Rightarrow> [] | Some chunks \<Rightarrow> extract_loop chunks [])"

definition build_response :: "raw_result \<Rightarrow> response" where
  "build_response result =
     (200, JObj [(''text'', JStr (case result_text result of Some t \<Rightarrow> t | None \<Rightarrow> [])),
                 (''words'', JList (extract_words result))])"

subsection \<open>The handler of /transcribe\<close>

text \<open>
  The outcome of a request is its response and the calls made to the pipeline, in order.
  Any exception raised inside the \<^verbatim>\<open>try\<close> block, the one of \<^verbatim>\<open>get_json\<close> included,
  becomes a 500 response carrying its text.
\<close>

record outcome =
  response :: response
  calls :: "(pipeline_input \<times> dict) list"

definition transcribe_audio ::
    "(json \<Rightarrow> exn + ndarray) \<Rightarrow> state \<Rightarrow> exn + json \<Rightarrow> outcome" where
  "transcribe_audio np st get_json =
     (case whisper_pipeline st of
        None \<Rightarrow> \<lparr>response = (503, JObj [(''error'', JStr ''Model not initialized'')]), calls = []\<rparr>
      | Some pipe \<Rightarrow>
          (case prepare_call np (model_info st) get_json of
             Inl e \<Rightarrow> \<lparr>response = (500, JObj [(''error'', JStr (str_exn e))]), calls = []\<rparr>
           | Inr (Inl early) \<Rightarrow> \<lparr>response = early, calls = []\<rparr>
           | Inr (Inr (input, kwargs)) \<Rightarrow>
               (case pipe input kwargs of
                  Inl e \<Rightarrow> \<lparr>response = (500, JObj [(''error'', JStr (str_exn e))]),
                            calls = [(input, kwargs)]\<rparr>
                | Inr result \<Rightarrow> \<lparr>response = build_response result, calls = [(input, kwargs)]\<rparr>)))"

subsection \<open>A run of the service\<close>

text \<open>
  No handler assigns a global, so a request leaves the state as it found it. A run
  serves a sequence of requests one after the other.
\<close>

datatype request = GetHealth | GetInfo | PostTranscribe "exn + json"

definition handle :: "(json \<Rightarrow> exn + ndarray) \<Rightarrow> state \<Rightarrow> request \<Rightarrow> response \<times> state" where
  "handle np st req =
     (case req of
        GetHealth \<Rightarrow> (health_check st, st)
      | GetInfo \<Rightarrow> (get_model_info st, st)
      | PostTranscribe body \<Rightarrow> (response (transcribe_audio np st body), st))"

fun serve :: "(json \<Rightarrow> exn + ndarray) \<Rightarrow> state \<Rightarrow> request list \<Rightarrow> response list \<times> state" where
  "serve np st [] = ([], st)"
| "serve np st (req # reqs) =
     (case handle np st req of (r, st') \<Rightarrow>
        (case serve np st' reqs of (rs, st'') \<Rightarrow> (r # rs, st'')))"

section \<open>A conversion to float32 arrays\<close>

text \<open>
  The theorems about \<^verbatim>\<open>transcribe_audio\<close> hold for every conversion function. The
  examples need one: \<open>np_array_float32\<close> follows numpy on the values a JSON body holds.
  A number or boolean becomes a zero-dimensional array, \<^verbatim>\<open>None\<close> becomes not-a-number, a
  list becomes an array with one more dimension than its elements, which must agree in
  shape, and a dictionary is refused. numpy also converts a string that spells a number;
  that parser is not modelled and every string is refused here. An integer too large
  for a float, which numpy refuses, is converted here. The examples convert lists of
  numbers only.
\<close>

fun sequence_exn :: "(exn + 'a) list \<Rightarrow> exn + 'a list" where
  "sequence_exn [] = Inr []"
| "sequence_exn (m # ms) =
     (case m of Inl e \<Rightarrow> Inl e
      | Inr x \<Rightarrow> (case sequence_exn ms of Inl e \<Rightarrow> Inl e | Inr xs \<Rightarrow> Inr (x # xs)))"

definition stack :: "ndarray list \<Rightarrow> exn + ndarray" where
  "stack arrays =
     (case arrays of
        [] \<Rightarrow> Inr (NdArray [0] [])
      | a # _ \<Rightarrow>
          if list_all (\<lambda>b. shape b = shape a) arrays
          then Inr (NdArray (length arrays # shape a) (concat (map samples arrays)))
          else Inl (Exn ''ValueError''
                 ''setting an array element with a sequence. The requested array has an inhomogeneous shape.''))"

fun np_array_float32 :: "json \<Rightarrow> exn + ndarray" where
  "np_array_float32 (JList xs) = bind_exn (sequence_exn (map np_array_float32 xs)) stack"
| "np_array_float32 (JInt i) = Inr (NdArray [] [Sample (of_int i)])"
| "np_array_float32 (JFloat x) = Inr (NdArray [] [Sample x])"
| "np_array_float32 (JBool b) = Inr (NdArray [] [Sample (if b then 1 else 0)])"
| "np_array_float32 JNull = Inr (NdArray [] [NaN])"
| "np_array_float32 (JStr s) =
     Inl (Exn ''ValueError'' (''could not convert string to float: '' @ [CHR 0x27] @ s @ [CHR 0x27]))"
| "np_array_float32 (JObj kvs) =
     Inl (Exn ''TypeError''
       (''float() argument must be a string or a real number, not '' @ [CHR 0x27] @ ''dict'' @ [CHR 0x27]))"

section \<open>The vocabulary of the specification\<close>

text \<open>
  The segments of a raw result, in the model's order; a missing \<^verbatim>\<open>chunks\<close> key gives
  none. A segment is timed when its time pair is present and not null.
\<close>

definition segments :: "raw_result \<Rightarrow> chunk list" where
  "segments result = (case result_chunks result of None \<Rightarrow> [] | Some chunks \<Rightarrow> chunks)"

definition has_time_pair :: "chunk \<Rightarrow> bool" where
  "has_time_pair c = (case chunk_timestamp c of TimePair _ _ \<Rightarrow> True | _ \<Rightarrow> False)"

definition bound_or_zero :: "real option \<Rightarrow> real" where
  "bound_or_zero b = (case b of Some t \<Rightarrow> t | None \<Rightarrow> 0)"

text \<open>
  The Word of a timed segment as the specification describes it: the trimmed text, each
  bound of the pair or 0.0 in its place when that bound is null, and confidence 1.0.
\<close>

definition word_of_segment :: "chunk \<Rightarrow> json" where
  "word_of_segment c =
     (case chunk_timestamp c of
        TimePair a b \<Rightarrow>
          JObj [(''text'', JStr (py_strip (chunk_text c))),
                (''start'', JFloat (bound_or_zero a)),
                (''end'', JFloat (bound_or_zero b)),
                (''confidence'', JFloat 1)]
      | _ \<Rightarrow> JNull)"

text \<open>
  \<open>t\<close> is \<open>s\<close> trimmed of surrounding whitespace: \<open>s\<close> is \<open>t\<close> between two runs of
  whitespace, and \<open>t\<close> neither starts nor ends with whitespace.
\<close>

definition trimmed_from :: "string \<Rightarrow> string \<Rightarrow> bool" where
  "trimmed_from t s =
     ((\<exists>l r. s = l @ t @ r \<and> list_all is_space l \<and> list_all is_space r) \<and>
      (t = [] \<or> \<not> is_space (hd t) \<and> \<not> is_space (last t)))"

text \<open>A field of a JSON object, and the order of the two time bounds of a Word.\<close>

definition json_field :: "string \<Rightarrow> json \<Rightarrow> json option" where
  "json_field key v = (case v of JObj kvs \<Rightarrow> map_of kvs key | _ \<Rightarrow> None)"

definition start_le_end :: "json \<Rightarrow> bool" where
  "start_le_end w =
     (case (json_field ''start'' w, json_field ''end'' w) of
        (Some (JFloat s), Some (JFloat e)) \<Rightarrow> s \<le> e
      | _ \<Rightarrow> False)"

text \<open>
  The generation configuration of the specification for a request with the fields \<open>d\<close>:
  the token bound 448, the task (\<^verbatim>\<open>transcribe\<close> when the request has none), word
  timestamps, and the language hint when the request gives one. A language field whose
  value Python counts as false (null, the empty string) is no hint.
\<close>

definition kwargs_of :: "dict \<Rightarrow> dict" where
  "kwargs_of d =
     [(''max_new_tokens'', JInt 448),
      (''task'', case map_of d ''task'' of Some t \<Rightarrow> t | None \<Rightarrow> JStr ''transcribe''),
      (''return_timestamps'', JStr ''word'')] @
     (case map_of d ''language'' of
        Some l \<Rightarrow> if truthy l then [(''language'', l)] else []
      | None \<Rightarrow> [])"

text \<open>A body that is valid JSON but no container: null, a boolean or a number.\<close>

definition not_a_container :: "json \<Rightarrow> bool" where
  "not_a_container v =
     (case v of JNull \<Rightarrow> True | JBool _ \<Rightarrow> True | JInt _ \<Rightarrow> True | JFloat _ \<Rightarrow> True | _ \<Rightarrow> False)"

section \<open>Example values\<close>

text \<open>
  A raw result with four segments, two of them timed, and a pipeline that returns it; a
  library whose calls all succeed on a machine without CUDA; the state that
  initialisation with this library leaves; a request body and the call it leads to.
\<close>

definition example_result :: raw_result where
  "example_result =
     \<lparr>result_text = Some '' hello world'',
      result_chunks = Some
        [\<lparr>chunk_text = '' hello'', chunk_timestamp = TimePair (Some 0) (Some 0.5)\<rparr>,
         \<lparr>chunk_text = '' lost'', chunk_timestamp = NullTimestamp\<rparr>,
         \<lparr>chunk_text = '' world '', chunk_timestamp = TimePair (Some 0.5) None\<rparr>,
         \<lparr>chunk_text = ''gone'', chunk_timestamp = NoTimestamp\<rparr>]\<rparr>"

definition example_pipeline :: pipeline where
  "example_pipeline input kwargs = Inr example_result"

definition example_library :: "(unit, unit) library" where
  "example_library =
     \<lparr>cuda_is_available = False,
      model_from_pretrained = (\<lambda>model_id load. Inr ()),
      model_to = (\<lambda>model device. Inr model),
      processor_from_pretrained = (\<lambda>model_id cache_dir. Inr ()),
      make_pipeline = (\<lambda>task model processor dtype device timestamps. Inr example_pipeline),
      feature_extractor_sampling_rate = (\<lambda>processor. 16000)\<rparr>"

definition example_state :: state where
  "example_state =
     \<lparr>whisper_pipeline = Some example_pipeline,
      model_info = [(''model_id'', JStr ''openai/whisper-tiny''),
                    (''device'', JStr ''cpu''),
                    (''dtype'', JStr ''torch.float32''),
                    (''sample_rate'', JInt 16000)]\<rparr>"

definition example_fields :: dict where
  "example_fields =
     [(''audio'', JList [JFloat 0, JFloat 0.25]),
      (''sample_rate'', JInt 44100),
      (''language'', JStr ''en'')]"

definition example_body :: json where
  "example_body = JObj example_fields"

definition example_input :: pipeline_input where
  "example_input = \<lparr>array = NdArray [2] [Sample 0, Sample 0.25], sampling_rate = JInt 16000\<rparr>"

definition example_kwargs :: dict where
  "example_kwargs =
     [(''max_new_tokens'', JInt 448), (''task'', JStr ''transcribe''),
      (''return_timestamps'', JStr ''word''), (''language'', JStr ''en'')]"

text \<open>A model that reports a segment ending before it starts.\<close>

definition backwards_result :: raw_result where
  "backwards_result =
     \<lparr>result_text = Some ''hi'',
      result_chunks = Some [\<lparr>chunk_text = ''hi'', chunk_timestamp = TimePair (Some 2) (Some 1)\<rparr>]\<rparr>"

definition backwards_pipeline :: pipeline where
  "backwards_pipeline input kwargs = Inr backwards_result"

definition backwards_state :: state where
  "backwards_state =
     \<lparr>whisper_pipeline = Some backwards_pipeline,
      model_info = [(''sample_rate'', JInt 16000)]\<rparr>"

text \<open>A model whose raw result has neither the key \<^verbatim>\<open>text\<close> nor the key \<^verbatim>\<open>chunks\<close>.\<close>

definition bare_result :: raw_result where
  "bare_result = \<lparr>result_text = None, result_chunks = None\<rparr>"

definition bare_pipeline :: pipeline where
  "bare_pipeline input kwargs = Inr bare_result"

definition bare_state :: state where
  "bare_state =
     \<lparr>whisper_pipeline = Some bare_pipeline,
      model_info = [(''sample_rate'', JInt 16000)]\<rparr>"

text \<open>The exception of \<^verbatim>\<open>get_json\<close> for a body that is not JSON.\<close>

definition bad_request :: exn where
  "bad_request =
     Exn ''BadRequest''
       ''400 Bad Request: The browser (or proxy) sent a request that this server could not understand.''"

section \<open>Auxiliary facts\<close>

lemma extract_loop_acc:
  "extract_loop cs words = words @ map word_of_segment (filter has_time_pair cs)"
  by (induction cs arbitrary: words)
     (auto simp: has_time_pair_def word_of_segment_def bound_or_zero_def split: timestamp.splits)

lemma extract_words_segments:
  "extract_words result = map word_of_segment (filter has_time_pair (segments result))"
  by (simp add: extract_words_def segments_def extract_loop_acc split: option.splits)

lemma py_strip_trimmed: "trimmed_from (py_strip s) s"
proof -
  define l where "l = takeWhile is_space s"
  define m where "m = dropWhile is_space s"
  define r where "r = rev (takeWhile is_space (rev m))"
  have s: "s = l @ m" by (simp add: l_def m_def)
  have "rev (dropWhile is_space (rev m)) @ rev (takeWhile is_space (rev m)) = m"
    by (metis rev_append rev_rev_ident takeWhile_dropWhile_id)
  then have m: "m = py_strip s @ r"
    by (simp add: py_strip_def r_def m_def)
  have l_sp: "list_all is_space l"
    by (simp add: l_def list_all_iff) (meson set_takeWhileD)
  have r_sp: "list_all is_space r"
    by (simp add: r_def list_all_iff) (meson set_takeWhileD)
  have edges: "py_strip s = [] \<or> \<not> is_space (hd (py_strip s)) \<and> \<not> is_space (last (py_strip s))"
  proof (cases "py_strip s = []")
    case True
    then show ?thesis by simp
  next
    case False
    then have ne: "dropWhile is_space (rev m) \<noteq> []" by (simp add: py_strip_def m_def)
    have last_ok: "\<not> is_space (last (py_strip s))"
      using ne hd_dropWhile[of is_space "rev m"] by (simp add: py_strip_def m_def last_rev)
    have "m \<noteq> []" using ne by auto
    then have hdm: "\<not> is_space (hd m)" unfolding m_def using hd_dropWhile by metis
    have "hd m = hd (py_strip s)" using m False by (metis hd_append2)
    with hdm last_ok show ?thesis by simp
  qed
  from s m l_sp r_sp edges show ?thesis unfolding trimmed_from_def by metis
qed

lemma word_of_segment_bounds:
  "chunk_timestamp c = TimePair (Some s) (Some e) \<Longrightarrow>
     json_field ''start'' (word_of_segment c) = Some (JFloat s) \<and>
     json_field ''end'' (word_of_segment c) = Some (JFloat e) \<and>
     (start_le_end (word_of_segment c) \<longleftrightarrow> s \<le> e)"
  by (simp add: word_of_segment_def json_field_def start_le_end_def bound_or_zero_def)

text \<open>A recorded call tells what the preparation returned.\<close>

lemma calls_single:
  assumes "whisper_pipeline st = Some pipe"
      and "calls (transcribe_audio np st body) = [(input, kwargs)]"
  shows "prepare_call np (model_info st) body = Inr (Inr (input, kwargs))"
  using assms by (auto simp: transcribe_audio_def split: sum.splits prod.splits)

lemma returned_response:
  assumes "whisper_pipeline st = Some pipe"
      and "calls (transcribe_audio np st body) = [(input, kwargs)]"
      and "pipe input kwargs = Inr result"
  shows "response (transcribe_audio np st body) = build_response result"
  using assms(1,3) calls_single[OF assms(1,2)] by (simp add: transcribe_audio_def)

text \<open>On a body that is a JSON object the preparation has a closed form.\<close>

lemma check_sample_rate_dict: "check_sample_rate (JObj d) = Inr ()"
  by (simp add: check_sample_rate_def bind_exn_def py_in_def py_getitem_def split: option.splits)

lemma generate_kwargs_dict: "generate_kwargs (JObj d) = Inr (kwargs_of d)"
  by (simp add: generate_kwargs_def kwargs_of_def bind_exn_def py_in_def py_get_def py_getitem_def
           split: option.splits)

lemma prepare_call_dict:
  "prepare_call np info (Inr (JObj d)) =
     (case map_of d ''audio'' of
        None \<Rightarrow> Inr (Inl (400, JObj [(''error'', JStr ''Missing 'audio' field'')]))
      | Some a \<Rightarrow>
          (case np a of
             Inl e \<Rightarrow> Inl e
           | Inr arr \<Rightarrow>
               (case py_len arr of
                  Inl e \<Rightarrow> Inl e
                | Inr n \<Rightarrow>
                    Inr (Inr (\<lparr>array = arr, sampling_rate = dict_get info ''sample_rate'' (JInt 16000)\<rparr>,
                              kwargs_of d)))))"
  by (simp add: prepare_call_def bind_exn_def py_in_def py_getitem_def check_sample_rate_dict
        generate_kwargs_dict split: option.splits sum.splits)

lemma kwargs_of_cong:
  assumes "\<forall>k. k \<noteq> ''sample_rate'' \<longrightarrow> map_of d1 k = map_of d2 k"
  shows "kwargs_of d1 = kwargs_of d2"
proof -
  have "map_of d1 ''task'' = map_of d2 ''task''" "map_of d1 ''language'' = map_of d2 ''language''"
    using assms by simp_all
  then show ?thesis by (simp add: kwargs_of_def)
qed

lemma np_non_list:
  "(\<forall>xs. v \<noteq> JList xs) \<Longrightarrow>
     (\<exists>e. np_array_float32 v = Inl e) \<or> (\<exists>arr. np_array_float32 v = Inr arr \<and> shape arr = [])"
  by (cases v) auto

lemma serve_frame: "serve np st reqs = (map (\<lambda>req. fst (handle np st req)) reqs, st)"
proof (induction reqs)
  case Nil
  show ?case by simp
next
  case (Cons req reqs)
  obtain r where r: "handle np st req = (r, st)"
    by (cases req) (simp_all add: handle_def)
  show ?case by (simp add: r Cons)
qed

lemma startup_Some:
  assumes "startup lib model_id device model_dir = Some st"
  shows "whisper_pipeline st \<noteq> None \<and>
         (\<exists>device' dtype rate.
            model_info st = [(''model_id'', JStr model_id), (''device'', JStr device'),
                             (''dtype'', JStr dtype), (''sample_rate'', JInt rate)])"
  using assms
  by (auto simp: startup_def initialize_model_def Let_def split: sum.splits prod.splits option.splits)

subsection \<open>The examples evaluated\<close>

lemma example_ready: "whisper_pipeline example_state = Some example_pipeline"
  by (simp add: example_state_def)

lemma example_prepare:
  "prepare_call np_array_float32 (model_info example_state) (Inr example_body) =
     Inr (Inr (example_input, example_kwargs))"
  by (simp add: prepare_call_dict example_body_def example_fields_def example_state_def
        example_input_def example_kwargs_def kwargs_of_def stack_def bind_exn_def py_len_def
        dict_get_def)

lemma example_calls:
  "calls (transcribe_audio np_array_float32 example_state (Inr example_body)) =
     [(example_input, example_kwargs)]"
  by (simp add: transcribe_audio_def example_prepare example_ready example_pipeline_def)

lemma example_returns: "example_pipeline example_input example_kwargs = Inr example_result"
  by (simp add: example_pipeline_def)

lemma example_startup:
  "startup example_library ''openai/whisper-tiny'' ''auto'' None = Some example_state"
  by (simp add: startup_def initialize_model_def example_library_def example_state_def
        initial_state_def cache_dir_of_def str_dtype_def)

lemma bare_ready: "whisper_pipeline bare_state = Some bare_pipeline"
  by (simp add: bare_state_def)

lemma bare_calls:
  "calls (transcribe_audio np_array_float32 bare_state (Inr example_body)) =
     [(example_input, example_kwargs)]"
  by (simp add: transcribe_audio_def prepare_call_dict example_body_def example_fields_def
        bare_state_def bare_pipeline_def example_input_def example_kwargs_def kwargs_of_def
        stack_def bind_exn_def py_len_def dict_get_def)

section \<open>Timestamp extraction\<close>

text \<open>
  Claim C1. For every raw model result, the timestamp extraction of /transcribe emits
  exactly one Word per segment whose time pair is non-null, in the order of the segments
  and without sorting: the words of the response are the timed segments, each mapped to
  its Word. The Word carries the segment's text trimmed of surrounding whitespace, start
  and end taken from the pair with 0.0 only in place of the bound that is null, and
  confidence 1.0. Segments whose time pair is null or absent are dropped, so there are at
  most as many words as raw segments.
\<close>

theorem timestamp_extraction:
  assumes "whisper_pipeline st = Some pipe"
      and "calls (transcribe_audio np st body) = [(input, kwargs)]"
      and "pipe input kwargs = Inr result"
  shows "response (transcribe_audio np st body) =
           (200, JObj [(''text'', JStr (case result_text result of Some t \<Rightarrow> t | None \<Rightarrow> [])),
                       (''words'', JList (map word_of_segment (filter has_time_pair (segments result))))])
         \<and> length (map word_of_segment (filter has_time_pair (segments result)))
             \<le> length (segments result)
         \<and> (\<forall>c \<in> set (segments result). has_time_pair c \<longrightarrow>
               (\<exists>a b. chunk_timestamp c = TimePair a b \<and>
                  word_of_segment c =
                    JObj [(''text'', JStr (py_strip (chunk_text c))),
                          (''start'', JFloat (case a of Some t \<Rightarrow> t | None \<Rightarrow> 0)),
                          (''end'', JFloat (case b of Some t \<Rightarrow> t | None \<Rightarrow> 0)),
                          (''confidence'', JFloat 1)]) \<and>
               trimmed_from (py_strip (chunk_text c)) (chunk_text c))"
proof -
  have resp: "response (transcribe_audio np st body) = build_response result"
    using returned_response assms by blast
  have fields: "\<forall>c \<in> set (segments result). has_time_pair c \<longrightarrow>
               (\<exists>a b. chunk_timestamp c = TimePair a b \<and>
                  word_of_segment c =
                    JObj [(''text'', JStr (py_strip (chunk_text c))),
                          (''start'', JFloat (case a of Some t \<Rightarrow> t | None \<Rightarrow> 0)),
                          (''end'', JFloat (case b of Some t \<Rightarrow> t | None \<Rightarrow> 0)),
                          (''confidence'', JFloat 1)]) \<and>
               trimmed_from (py_strip (chunk_text c)) (chunk_text c)"
    by (auto simp: has_time_pair_def word_of_segment_def bound_or_zero_def py_strip_trimmed
             split: timestamp.splits)
  show ?thesis
    using resp fields by (simp add: build_response_def extract_words_segments)
qed

text \<open>
  On the example the second and the fourth segment are dropped, the texts lose their
  blanks, and the missing end of the third segment becomes 0.0.
\<close>

theorem timestamp_extraction_witness:
  "whisper_pipeline example_state = Some example_pipeline \<and>
   calls (transcribe_audio np_array_float32 example_state (Inr example_body)) =
     [(example_input, example_kwargs)] \<and>
   example_pipeline example_input example_kwargs = Inr example_result \<and>
   response (transcribe_audio np_array_float32 example_state (Inr example_body)) =
     (200, JObj [(''text'', JStr '' hello world''),
                 (''words'', JList
                    [JObj [(''text'', JStr ''hello''), (''start'', JFloat 0),
                           (''end'', JFloat 0.5), (''confidence'', JFloat 1)],
                     JObj [(''text'', JStr ''world''), (''start'', JFloat 0.5),
                           (''end'', JFloat 0), (''confidence'', JFloat 1)]])])"
proof -
  note w = timestamp_extraction [OF example_ready example_calls example_returns, THEN conjunct1]
  have "map word_of_segment (filter has_time_pair (segments example_result)) =
        [JObj [(''text'', JStr ''hello''), (''start'', JFloat 0),
               (''end'', JFloat 0.5), (''confidence'', JFloat 1)],
         JObj [(''text'', JStr ''world''), (''start'', JFloat 0.5),
               (''end'', JFloat 0), (''confidence'', JFloat 1)]]"
    by (simp add: segments_def example_result_def has_time_pair_def word_of_segment_def
          bound_or_zero_def py_strip_def is_space_def)
  moreover have "result_text example_result = Some '' hello world''"
    by (simp add: example_result_def)
  ultimately show ?thesis using w example_ready example_calls example_returns by simp
qed

section \<open>A request without the audio field\<close>

text \<open>
  Claim C2 as stated fails: the handler tests the pipeline before it looks at the body, so
  a request without \<^verbatim>\<open>audio\<close> that arrives before the model is initialised is answered
  with 503.
\<close>

theorem missing_audio_unready_counterexample:
  "response (transcribe_audio np_array_float32 initial_state
               (Inr (JObj [(''task'', JStr ''translate'')])))
     = (503, JObj [(''error'', JStr ''Model not initialized'')])"
  by (simp add: initial_state_def transcribe_audio_def)

text \<open>
  Claim C2, amended. For every POST /transcribe request that arrives while the model is
  initialised and whose body, a JSON object, lacks the \<^verbatim>\<open>audio\<close> field, the response
  status is 400 with the body \<^verbatim>\<open>{"error": "Missing 'audio' field"}\<close>, whatever other
  fields are present; the pipeline is not called.
\<close>

theorem missing_audio_400:
  assumes "whisper_pipeline st = Some pipe" and "map_of d ''audio'' = None"
  shows "transcribe_audio np st (Inr (JObj d)) =
           \<lparr>response = (400, JObj [(''error'', JStr ''Missing 'audio' field'')]), calls = []\<rparr>"
  using assms by (simp add: transcribe_audio_def prepare_call_dict)

theorem missing_audio_400_witness:
  "whisper_pipeline example_state = Some example_pipeline \<and>
   map_of [(''task'', JStr ''translate''), (''sample_rate'', JInt 8000)] ''audio'' = None \<and>
   transcribe_audio np_array_float32 example_state
       (Inr (JObj [(''task'', JStr ''translate''), (''sample_rate'', JInt 8000)])) =
     \<lparr>response = (400, JObj [(''error'', JStr ''Missing 'audio' field'')]), calls = []\<rparr>"
  using missing_audio_400 [of example_state example_pipeline
          "[(''task'', JStr ''translate''), (''sample_rate'', JInt 8000)]" np_array_float32]
  by (simp add: example_state_def)

section \<open>Requests before the model is initialised\<close>

text \<open>
  Claim C3. While the model is not initialised, that is while the pipeline is still unset,
  each of the three endpoints /transcribe, /info and /health responds with status 503,
  whatever the request.
\<close>

theorem not_initialized_503:
  "whisper_pipeline st = None \<Longrightarrow>
     fst (response (transcribe_audio np st body)) = 503 \<and>
     fst (get_model_info st) = 503 \<and>
     fst (health_check st) = 503"
  by (simp add: transcribe_audio_def get_model_info_def health_check_def)

theorem not_initialized_503_witness:
  "whisper_pipeline initial_state = None \<and>
   response (transcribe_audio np_array_float32 initial_state (Inr example_body)) =
     (503, JObj [(''error'', JStr ''Model not initialized'')]) \<and>
   get_model_info initial_state = (503, JObj [(''error'', JStr ''Model not initialized'')]) \<and>
   health_check initial_state =
     (503, JObj [(''status'', JStr ''error''), (''message'', JStr ''Model not initialized'')])"
  using not_initialized_503 [of initial_state np_array_float32 "Inr example_body"]
  by (simp add: initial_state_def transcribe_audio_def get_model_info_def health_check_def)

section \<open>The generation configuration\<close>

text \<open>
  Claim C4. For every validated /transcribe request, one whose audio value converts to an
  array with a length, the pipeline is called once. The generation configuration of the
  call has max_new_tokens 448, the task of the request or \<^verbatim>\<open>transcribe\<close> when the
  request has none, return_timestamps \<^verbatim>\<open>word\<close>, and a language entry exactly when the
  request supplies a language hint, in which case the entry is that hint unchanged. The
  buffer is tagged with the sample rate recorded in the model metadata, whatever rate
  the request declares.
\<close>

theorem generation_configuration:
  assumes "whisper_pipeline st = Some pipe"
      and "map_of d ''audio'' = Some a" and "np a = Inr arr" and "shape arr \<noteq> []"
  shows "\<exists>kwargs.
           calls (transcribe_audio np st (Inr (JObj d))) =
             [(\<lparr>array = arr,
                sampling_rate = dict_get (model_info st) ''sample_rate'' (JInt 16000)\<rparr>, kwargs)] \<and>
           map_of kwargs ''max_new_tokens'' = Some (JInt 448) \<and>
           map_of kwargs ''task'' =
             Some (case map_of d ''task'' of Some t \<Rightarrow> t | None \<Rightarrow> JStr ''transcribe'') \<and>
           map_of kwargs ''return_timestamps'' = Some (JStr ''word'') \<and>
           map_of kwargs ''language'' =
             (case map_of d ''language'' of
                Some l \<Rightarrow> if truthy l then Some l else None
              | None \<Rightarrow> None) \<and>
           (\<forall>r. map_of (model_info st) ''sample_rate'' = Some r \<longrightarrow>
                dict_get (model_info st) ''sample_rate'' (JInt 16000) = r)"
proof -
  obtain n ns where sh: "shape arr = n # ns" using assms(4) by (cases "shape arr") auto
  have prep: "prepare_call np (model_info st) (Inr (JObj d)) =
      Inr (Inr (\<lparr>array = arr,
                 sampling_rate = dict_get (model_info st) ''sample_rate'' (JInt 16000)\<rparr>,
                kwargs_of d))"
    using assms(2,3) sh by (simp add: prepare_call_dict py_len_def)
  have c: "calls (transcribe_audio np st (Inr (JObj d))) =
      [(\<lparr>array = arr,
         sampling_rate = dict_get (model_info st) ''sample_rate'' (JInt 16000)\<rparr>, kwargs_of d)]"
    using assms(1) prep by (simp add: transcribe_audio_def split: sum.splits)
  have k: "map_of (kwargs_of d) ''max_new_tokens'' = Some (JInt 448)"
      "map_of (kwargs_of d) ''task'' =
         Some (case map_of d ''task'' of Some t \<Rightarrow> t | None \<Rightarrow> JStr ''transcribe'')"
      "map_of (kwargs_of d) ''return_timestamps'' = Some (JStr ''word'')"
      "map_of (kwargs_of d) ''language'' =
         (case map_of d ''language'' of Some l \<Rightarrow> if truthy l then Some l else None | None \<Rightarrow> None)"
    by (simp_all add: kwargs_of_def split: option.splits)
  show ?thesis using c k by (auto simp: dict_get_def)
qed

text \<open>
  The example request declares 44100 Hz and the language \<^verbatim>\<open>en\<close>; the call is tagged
  with the recorded 16000 Hz.
\<close>

theorem generation_configuration_witness:
  "whisper_pipeline example_state = Some example_pipeline \<and>
   map_of example_fields ''audio'' = Some (JList [JFloat 0, JFloat 0.25]) \<and>
   np_array_float32 (JList [JFloat 0, JFloat 0.25]) = Inr (NdArray [2] [Sample 0, Sample 0.25]) \<and>
   shape (NdArray [2] [Sample 0, Sample 0.25]) \<noteq> [] \<and>
   calls (transcribe_audio np_array_float32 example_state (Inr (JObj example_fields))) =
     [(\<lparr>array = NdArray [2] [Sample 0, Sample 0.25], sampling_rate = JInt 16000\<rparr>,
       [(''max_new_tokens'', JInt 448), (''task'', JStr ''transcribe''),
        (''return_timestamps'', JStr ''word''), (''language'', JStr ''en'')])]"
proof -
  have h2: "map_of example_fields ''audio'' = Some (JList [JFloat 0, JFloat 0.25])"
    by (simp add: example_fields_def)
  have h3: "np_array_float32 (JList [JFloat 0, JFloat 0.25]) =
              Inr (NdArray [2] [Sample 0, Sample 0.25])"
    by (simp add: stack_def bind_exn_def)
  have h4: "shape (NdArray [2] [Sample 0, Sample 0.25]) \<noteq> []" by simp
  from generation_configuration
         [where np = np_array_float32 and st = example_state and d = example_fields,
          OF example_ready h2 h3 h4]
  obtain kwargs where
    c: "calls (transcribe_audio np_array_float32 example_state (Inr (JObj example_fields))) =
          [(\<lparr>array = NdArray [2] [Sample 0, Sample 0.25],
             sampling_rate = dict_get (model_info example_state) ''sample_rate'' (JInt 16000)\<rparr>,
            kwargs)]"
    by blast
  have "calls (transcribe_audio np_array_float32 example_state (Inr (JObj example_fields))) =
     [(example_input, example_kwargs)]"
    using example_calls by (simp add: example_body_def)
  then show ?thesis using c h2 h3 example_ready
    by (simp add: example_input_def example_kwargs_def)
qed

section \<open>The order of the time bounds\<close>

text \<open>
  Claim C5 as stated fails: the handler copies the bounds it gets and compares nothing.
  For a model that reports the pair (2.0, 1.0), both bounds non-null, the emitted Word
  starts after it ends.
\<close>

theorem word_order_counterexample:
  "response (transcribe_audio np_array_float32 backwards_state (Inr example_body)) =
     (200, JObj [(''text'', JStr ''hi''),
                 (''words'', JList [JObj [(''text'', JStr ''hi''), (''start'', JFloat 2),
                                          (''end'', JFloat 1), (''confidence'', JFloat 1)]])])
   \<and> \<not> start_le_end (JObj [(''text'', JStr ''hi''), (''start'', JFloat 2),
                            (''end'', JFloat 1), (''confidence'', JFloat 1)])"
  by (simp add: transcribe_audio_def prepare_call_dict example_body_def example_fields_def
        backwards_state_def backwards_pipeline_def backwards_result_def stack_def bind_exn_def
        py_len_def
        build_response_def extract_words_def py_strip_def is_space_def start_le_end_def
        json_field_def)

text \<open>
  Claim C5, amended. For every Word emitted in a /transcribe response whose start and end
  were both taken from non-null bounds of the model's time pair, start and end are exactly
  those two bounds; so start <= end holds for the Word if and only if it holds for the
  pair the model reported. The words correspond one to one, in order, to the timed
  segments.
\<close>

theorem word_bounds_from_model:
  assumes "whisper_pipeline st = Some pipe"
      and "calls (transcribe_audio np st body) = [(input, kwargs)]"
      and "pipe input kwargs = Inr result"
  shows "\<exists>text words.
           response (transcribe_audio np st body) =
             (200, JObj [(''text'', text), (''words'', JList words)]) \<and>
           list_all2
             (\<lambda>c w. \<forall>s e. chunk_timestamp c = TimePair (Some s) (Some e) \<longrightarrow>
                      json_field ''start'' w = Some (JFloat s) \<and>
                      json_field ''end'' w = Some (JFloat e) \<and>
                      (start_le_end w \<longleftrightarrow> s \<le> e))
             (filter has_time_pair (segments result)) words"
proof -
  have resp: "response (transcribe_audio np st body) = build_response result"
    using returned_response assms by blast
  have rel: "list_all2
             (\<lambda>c w. \<forall>s e. chunk_timestamp c = TimePair (Some s) (Some e) \<longrightarrow>
                      json_field ''start'' w = Some (JFloat s) \<and>
                      json_field ''end'' w = Some (JFloat e) \<and>
                      (start_le_end w \<longleftrightarrow> s \<le> e))
             (filter has_time_pair (segments result)) (extract_words result)"
    unfolding extract_words_segments
    by (simp add: list_all2_map2 list_all2_same word_of_segment_bounds)
  show ?thesis using resp rel by (simp add: build_response_def)
qed

theorem word_bounds_from_model_witness:
  "whisper_pipeline example_state = Some example_pipeline \<and>
   calls (transcribe_audio np_array_float32 example_state (Inr example_body)) =
     [(example_input, example_kwargs)] \<and>
   example_pipeline example_input example_kwargs = Inr example_result \<and>
   (\<exists>text words.
           response (transcribe_audio np_array_float32 example_state (Inr example_body)) =
             (200, JObj [(''text'', text), (''words'', JList words)]) \<and>
           list_all2
             (\<lambda>c w. \<forall>s e. chunk_timestamp c = TimePair (Some s) (Some e) \<longrightarrow>
                      json_field ''start'' w = Some (JFloat s) \<and>
                      json_field ''end'' w = Some (JFloat e) \<and>
                      (start_le_end w \<longleftrightarrow> s \<le> e))
             (filter has_time_pair (segments example_result)) words)"
  using word_bounds_from_model [OF example_ready example_calls example_returns]
        example_ready example_calls example_returns
  by blast

section \<open>What is rejected before the model\<close>

text \<open>
  Claim C6 as stated fails: the handler has no test for an empty audio list. numpy turns
  the empty list into an array of length 0, and the pipeline is called with it.
\<close>

theorem empty_audio_counterexample:
  "transcribe_audio np_array_float32 example_state (Inr (JObj [(''audio'', JList [])])) =
     \<lparr>response = build_response example_result,
      calls = [(\<lparr>array = NdArray [0] [], sampling_rate = JInt 16000\<rparr>,
                [(''max_new_tokens'', JInt 448), (''task'', JStr ''transcribe''),
                 (''return_timestamps'', JStr ''word'')])]\<rparr>"
  by (simp add: transcribe_audio_def prepare_call_dict example_state_def example_pipeline_def
        stack_def bind_exn_def py_len_def dict_get_def kwargs_of_def)

text \<open>
  Claim C6, amended. For every /transcribe request with a JSON object as body, arriving
  while the model is initialised, the request is rejected before any model interaction
  when the \<^verbatim>\<open>audio\<close> field is absent (400), when its value cannot be converted to a
  float32 array (500), and when the conversion gives a zero-dimensional array, which has
  no length (500); in particular a present audio value that is not a list is rejected.
  Every other request reaches the model: there is no test for emptiness, and a present
  but empty audio list is passed to the model as a buffer of length 0.
\<close>

theorem audio_rejection:
  assumes "whisper_pipeline st = Some pipe"
  shows "(map_of d ''audio'' = None \<longrightarrow>
            transcribe_audio np st (Inr (JObj d)) =
              \<lparr>response = (400, JObj [(''error'', JStr ''Missing 'audio' field'')]), calls = []\<rparr>) \<and>
         (\<forall>a e. map_of d ''audio'' = Some a \<and> np a = Inl e \<longrightarrow>
            transcribe_audio np st (Inr (JObj d)) =
              \<lparr>response = (500, JObj [(''error'', JStr (str_exn e))]), calls = []\<rparr>) \<and>
         (\<forall>a arr. map_of d ''audio'' = Some a \<and> np a = Inr arr \<and> shape arr = [] \<longrightarrow>
            transcribe_audio np st (Inr (JObj d)) =
              \<lparr>response = (500, JObj [(''error'', JStr ''len() of unsized object'')]), calls = []\<rparr>) \<and>
         (\<forall>a arr. map_of d ''audio'' = Some a \<and> np a = Inr arr \<and> shape arr \<noteq> [] \<longrightarrow>
            calls (transcribe_audio np st (Inr (JObj d))) =
              [(\<lparr>array = arr,
                 sampling_rate = dict_get (model_info st) ''sample_rate'' (JInt 16000)\<rparr>,
                kwargs_of d)]) \<and>
         (\<forall>a. map_of d ''audio'' = Some a \<and> (\<forall>xs. a \<noteq> JList xs) \<longrightarrow>
            fst (response (transcribe_audio np_array_float32 st (Inr (JObj d)))) = 500 \<and>
            calls (transcribe_audio np_array_float32 st (Inr (JObj d))) = []) \<and>
         (map_of d ''audio'' = Some (JList []) \<longrightarrow>
            calls (transcribe_audio np_array_float32 st (Inr (JObj d))) =
              [(\<lparr>array = NdArray [0] [],
                 sampling_rate = dict_get (model_info st) ''sample_rate'' (JInt 16000)\<rparr>,
                kwargs_of d)])"
proof (intro conjI allI impI)
  assume "map_of d ''audio'' = None"
  then show "transcribe_audio np st (Inr (JObj d)) =
              \<lparr>response = (400, JObj [(''error'', JStr ''Missing 'audio' field'')]), calls = []\<rparr>"
    using assms by (simp add: transcribe_audio_def prepare_call_dict)
next
  fix a e assume "map_of d ''audio'' = Some a \<and> np a = Inl e"
  then show "transcribe_audio np st (Inr (JObj d)) =
              \<lparr>response = (500, JObj [(''error'', JStr (str_exn e))]), calls = []\<rparr>"
    using assms by (simp add: transcribe_audio_def prepare_call_dict)
next
  fix a arr assume "map_of d ''audio'' = Some a \<and> np a = Inr arr \<and> shape arr = []"
  then show "transcribe_audio np st (Inr (JObj d)) =
              \<lparr>response = (500, JObj [(''error'', JStr ''len() of unsized object'')]), calls = []\<rparr>"
    using assms by (simp add: transcribe_audio_def prepare_call_dict py_len_def)
next
  fix a arr assume h: "map_of d ''audio'' = Some a \<and> np a = Inr arr \<and> shape arr \<noteq> []"
  then obtain n ns where "shape arr = n # ns" by (cases "shape arr") auto
  with h show "calls (transcribe_audio np st (Inr (JObj d))) =
              [(\<lparr>array = arr,
                 sampling_rate = dict_get (model_info st) ''sample_rate'' (JInt 16000)\<rparr>,
                kwargs_of d)]"
    using assms by (simp add: transcribe_audio_def prepare_call_dict py_len_def split: sum.splits)
next
  fix a assume h: "map_of d ''audio'' = Some a \<and> (\<forall>xs. a \<noteq> JList xs)"
  then have "(\<exists>e. np_array_float32 a = Inl e) \<or>
             (\<exists>arr. np_array_float32 a = Inr arr \<and> shape arr = [])"
    using np_non_list by blast
  then have "fst (response (transcribe_audio np_array_float32 st (Inr (JObj d)))) = 500 \<and>
            calls (transcribe_audio np_array_float32 st (Inr (JObj d))) = []"
    using assms h by (auto simp: transcribe_audio_def prepare_call_dict py_len_def)
  then show "fst (response (transcribe_audio np_array_float32 st (Inr (JObj d)))) = 500"
     and "calls (transcribe_audio np_array_float32 st (Inr (JObj d))) = []" by simp_all
next
  assume "map_of d ''audio'' = Some (JList [])"
  then show "calls (transcribe_audio np_array_float32 st (Inr (JObj d))) =
              [(\<lparr>array = NdArray [0] [],
                 sampling_rate = dict_get (model_info st) ''sample_rate'' (JInt 16000)\<rparr>,
                kwargs_of d)]"
    using assms by (simp add: transcribe_audio_def prepare_call_dict py_len_def stack_def
        bind_exn_def split: sum.splits)
qed

text \<open>An empty list reaches the model; the number 5 in place of a list does not.\<close>

theorem audio_rejection_witness:
  "whisper_pipeline example_state = Some example_pipeline \<and>
   map_of [(''audio'', JList [])] ''audio'' = Some (JList []) \<and>
   calls (transcribe_audio np_array_float32 example_state (Inr (JObj [(''audio'', JList [])]))) =
     [(\<lparr>array = NdArray [0] [], sampling_rate = JInt 16000\<rparr>,
       [(''max_new_tokens'', JInt 448), (''task'', JStr ''transcribe''),
        (''return_timestamps'', JStr ''word'')])] \<and>
   map_of [(''audio'', JInt 5)] ''audio'' = Some (JInt 5) \<and> (\<forall>xs. JInt 5 \<noteq> JList xs) \<and>
   fst (response (transcribe_audio np_array_float32 example_state
                    (Inr (JObj [(''audio'', JInt 5)])))) = 500 \<and>
   calls (transcribe_audio np_array_float32 example_state (Inr (JObj [(''audio'', JInt 5)]))) = []"
proof -
  have a: "map_of [(''audio'', JList [])] ''audio'' = Some (JList [])" by simp
  have b: "map_of [(''audio'', JInt 5)] ''audio'' = Some (JInt 5) \<and> (\<forall>xs. JInt 5 \<noteq> JList xs)"
    by simp
  note t1 = audio_rejection
              [OF example_ready, where d = "[(''audio'', JList [])]" and np = np_array_float32]
  note t2 = audio_rejection
              [OF example_ready, where d = "[(''audio'', JInt 5)]" and np = np_array_float32]
  have c1: "calls (transcribe_audio np_array_float32 example_state
                    (Inr (JObj [(''audio'', JList [])]))) =
     [(\<lparr>array = NdArray [0] [],
        sampling_rate = dict_get (model_info example_state) ''sample_rate'' (JInt 16000)\<rparr>,
       kwargs_of [(''audio'', JList [])])]"
    using t1 a by blast
  have c2: "fst (response (transcribe_audio np_array_float32 example_state
                             (Inr (JObj [(''audio'', JInt 5)])))) = 500 \<and>
   calls (transcribe_audio np_array_float32 example_state (Inr (JObj [(''audio'', JInt 5)]))) = []"
    using t2 b by blast
  have k: "kwargs_of [(''audio'', JList [])] =
             [(''max_new_tokens'', JInt 448), (''task'', JStr ''transcribe''),
              (''return_timestamps'', JStr ''word'')]"
    by (simp add: kwargs_of_def)
  have s: "dict_get (model_info example_state) ''sample_rate'' (JInt 16000) = JInt 16000"
    by (simp add: dict_get_def example_state_def)
  show ?thesis using c1 c2 example_ready unfolding k s by simp
qed

section \<open>The declared sample rate\<close>

text \<open>
  Claim C7. The outcome of /transcribe does not depend on the \<^verbatim>\<open>sample_rate\<close> field of
  the request: two requests whose bodies agree on every field but \<^verbatim>\<open>sample_rate\<close>, which
  may be present in one and absent in the other or hold different values, lead to the
  same calls of the pipeline and the same response. A rate that differs from the recorded
  one is never a reason to reject, and the buffer is never resampled.
\<close>

theorem sample_rate_independence:
  assumes "\<forall>k. k \<noteq> ''sample_rate'' \<longrightarrow> map_of d1 k = map_of d2 k"
  shows "transcribe_audio np st (Inr (JObj d1)) = transcribe_audio np st (Inr (JObj d2))"
proof -
  have a: "map_of d1 ''audio'' = map_of d2 ''audio''" using assms by simp
  have p: "prepare_call np (model_info st) (Inr (JObj d1)) =
           prepare_call np (model_info st) (Inr (JObj d2))"
    unfolding prepare_call_dict a kwargs_of_cong[OF assms] ..
  show ?thesis unfolding transcribe_audio_def p ..
qed

text \<open>
  The example request declares 44100 Hz against the recorded 16000 Hz; the same request
  without the field has the same outcome, a call of the model and its answer.
\<close>

theorem sample_rate_independence_witness:
  "transcribe_audio np_array_float32 example_state (Inr (JObj example_fields)) =
   transcribe_audio np_array_float32 example_state
     (Inr (JObj [(''audio'', JList [JFloat 0, JFloat 0.25]), (''language'', JStr ''en'')])) \<and>
   transcribe_audio np_array_float32 example_state (Inr (JObj example_fields)) =
     \<lparr>response = build_response example_result, calls = [(example_input, example_kwargs)]\<rparr>"
proof -
  have h: "\<forall>k. k \<noteq> ''sample_rate'' \<longrightarrow>
        map_of example_fields k =
        map_of [(''audio'', JList [JFloat 0, JFloat 0.25]), (''language'', JStr ''en'')] k"
    by (simp add: example_fields_def)
  have v: "transcribe_audio np_array_float32 example_state (Inr (JObj example_fields)) =
     \<lparr>response = build_response example_result, calls = [(example_input, example_kwargs)]\<rparr>"
    using example_prepare
    by (simp add: transcribe_audio_def example_body_def example_ready example_pipeline_def)
  show ?thesis using sample_rate_independence [OF h] v by blast
qed

section \<open>Malformed requests\<close>

text \<open>
  Claim C8 as stated fails: the whole handler body, parsing included, runs in one
  \<^verbatim>\<open>try\<close> block whose handler answers 500. A body that is the JSON value null, which is
  not a JSON object, raises \<^verbatim>\<open>TypeError\<close> at the membership test and gets 500, not 400.
\<close>

theorem malformed_body_counterexample:
  "transcribe_audio np_array_float32 example_state (Inr JNull) =
     \<lparr>response = (500, JObj [(''error'', JStr ''argument of type 'NoneType' is not iterable'')]),
      calls = []\<rparr>"
  by (simp add: transcribe_audio_def prepare_call_def bind_exn_def py_in_def type_name_def
        example_state_def)

text \<open>
  Claim C8, amended. For every /transcribe request that arrives while the model is
  initialised: a JSON object without the \<^verbatim>\<open>audio\<close> field gets 400, and a response of 400
  is only given without calling the model; a body that cannot be parsed, or that is null,
  a boolean or a number, gets 500, also without calling the model. Status 500 is the
  answer to every exception raised in the handler: to those raised before the model is
  called, which leave it uncalled, and to those raised by the model invocation itself.
\<close>

theorem validation_and_failures:
  assumes "whisper_pipeline st = Some pipe"
  shows "(map_of d ''audio'' = None \<longrightarrow>
            transcribe_audio np st (Inr (JObj d)) =
              \<lparr>response = (400, JObj [(''error'', JStr ''Missing 'audio' field'')]), calls = []\<rparr>) \<and>
         transcribe_audio np st (Inl e) =
              \<lparr>response = (500, JObj [(''error'', JStr (str_exn e))]), calls = []\<rparr> \<and>
         (not_a_container v \<longrightarrow>
            fst (response (transcribe_audio np st (Inr v))) = 500 \<and>
            calls (transcribe_audio np st (Inr v)) = []) \<and>
         (\<forall>x. prepare_call np (model_info st) body = Inl x \<longrightarrow>
            transcribe_audio np st body =
              \<lparr>response = (500, JObj [(''error'', JStr (str_exn x))]), calls = []\<rparr>) \<and>
         (fst (response (transcribe_audio np st body)) = 400 \<longrightarrow>
            calls (transcribe_audio np st body) = []) \<and>
         (\<forall>input kwargs x. calls (transcribe_audio np st body) = [(input, kwargs)] \<and>
              pipe input kwargs = Inl x \<longrightarrow>
            response (transcribe_audio np st body) = (500, JObj [(''error'', JStr (str_exn x))]))"
proof (intro conjI allI impI)
  assume "map_of d ''audio'' = None"
  then show "transcribe_audio np st (Inr (JObj d)) =
              \<lparr>response = (400, JObj [(''error'', JStr ''Missing 'audio' field'')]), calls = []\<rparr>"
    using assms by (simp add: transcribe_audio_def prepare_call_dict)
next
  show "transcribe_audio np st (Inl e) =
              \<lparr>response = (500, JObj [(''error'', JStr (str_exn e))]), calls = []\<rparr>"
    using assms by (simp add: transcribe_audio_def prepare_call_def bind_exn_def)
next
  assume nc: "not_a_container v"
  then have "\<exists>x. prepare_call np (model_info st) (Inr v) = Inl x"
    by (cases v) (simp_all add: not_a_container_def prepare_call_def bind_exn_def py_in_def)
  then have "fst (response (transcribe_audio np st (Inr v))) = 500 \<and>
            calls (transcribe_audio np st (Inr v)) = []"
    using assms by (auto simp: transcribe_audio_def)
  then show "fst (response (transcribe_audio np st (Inr v))) = 500"
    and "calls (transcribe_audio np st (Inr v)) = []" by simp_all
next
  fix x assume "prepare_call np (model_info st) body = Inl x"
  then show "transcribe_audio np st body =
              \<lparr>response = (500, JObj [(''error'', JStr (str_exn x))]), calls = []\<rparr>"
    using assms by (simp add: transcribe_audio_def)
next
  assume "fst (response (transcribe_audio np st body)) = 400"
  then show "calls (transcribe_audio np st body) = []"
    using assms
    by (auto simp: transcribe_audio_def build_response_def split: sum.splits prod.splits)
next
  fix input kwargs x
  assume h: "calls (transcribe_audio np st body) = [(input, kwargs)] \<and> pipe input kwargs = Inl x"
  then have "prepare_call np (model_info st) body = Inr (Inr (input, kwargs))"
    using calls_single assms by blast
  with h show "response (transcribe_audio np st body) = (500, JObj [(''error'', JStr (str_exn x))])"
    using assms by (simp add: transcribe_audio_def)
qed

theorem validation_and_failures_witness:
  "whisper_pipeline example_state = Some example_pipeline \<and>
   map_of [(''task'', JStr ''translate'')] ''audio'' = None \<and>
   transcribe_audio np_array_float32 example_state (Inr (JObj [(''task'', JStr ''translate'')])) =
     \<lparr>response = (400, JObj [(''error'', JStr ''Missing 'audio' field'')]), calls = []\<rparr> \<and>
   transcribe_audio np_array_float32 example_state (Inl bad_request) =
     \<lparr>response = (500, JObj [(''error'', JStr (str_exn bad_request))]), calls = []\<rparr> \<and>
   not_a_container (JInt 7) \<and>
   fst (response (transcribe_audio np_array_float32 example_state (Inr (JInt 7)))) = 500 \<and>
   calls (transcribe_audio np_array_float32 example_state (Inr (JInt 7))) = []"
proof -
  have a: "map_of [(''task'', JStr ''translate'')] ''audio'' = None" by simp
  have b: "not_a_container (JInt 7)" by (simp add: not_a_container_def)
  note t = validation_and_failures
             [OF example_ready, where d = "[(''task'', JStr ''translate'')]"
                and np = np_array_float32 and e = bad_request and v = "JInt 7"
                and body = "Inr (JInt 7)"]
  show ?thesis using t a b example_ready by blast
qed

section \<open>The model state after initialisation\<close>

text \<open>
  Claim C9. After successful initialisation the model state is not modified again: no
  request handler writes the model metadata or the loaded pipeline. Whatever requests are
  served, the state after them is the state that initialisation left, and every /health
  and /info response among them is a 200 response that reports the metadata recorded at
  initialisation: the model_id given at startup, the device, the dtype and the sample
  rate.
\<close>

theorem model_state_stable:
  assumes "startup lib model_id device model_dir = Some st"
  shows "snd (serve np st reqs) = st \<and>
         (\<forall>i < length reqs.
            (reqs ! i = GetHealth \<longrightarrow>
               fst (serve np st reqs) ! i =
                 (200, JObj [(''status'', JStr ''healthy''), (''model'', JObj (model_info st))])) \<and>
            (reqs ! i = GetInfo \<longrightarrow> fst (serve np st reqs) ! i = (200, JObj (model_info st)))) \<and>
         (\<exists>device' dtype rate.
            model_info st = [(''model_id'', JStr model_id), (''device'', JStr device'),
                             (''dtype'', JStr dtype), (''sample_rate'', JInt rate)])"
proof -
  from startup_Some[OF assms] obtain pipe where p: "whisper_pipeline st = Some pipe"
    and info: "\<exists>device' dtype rate.
            model_info st = [(''model_id'', JStr model_id), (''device'', JStr device'),
                             (''dtype'', JStr dtype), (''sample_rate'', JInt rate)]"
    by auto
  have h: "fst (handle np st GetHealth) =
      (200, JObj [(''status'', JStr ''healthy''), (''model'', JObj (model_info st))])"
    using p by (simp add: handle_def health_check_def)
  have i: "fst (handle np st GetInfo) = (200, JObj (model_info st))"
    using p by (simp add: handle_def get_model_info_def)
  show ?thesis using h i info by (simp add: serve_frame)
qed

theorem model_state_stable_witness:
  "startup example_library ''openai/whisper-tiny'' ''auto'' None = Some example_state \<and>
   snd (serve np_array_float32 example_state
          [GetHealth, PostTranscribe (Inr example_body), GetInfo]) = example_state \<and>
   fst (serve np_array_float32 example_state
          [GetHealth, PostTranscribe (Inr example_body), GetInfo]) ! 0 =
     (200, JObj [(''status'', JStr ''healthy''), (''model'', JObj (model_info example_state))]) \<and>
   fst (serve np_array_float32 example_state
          [GetHealth, PostTranscribe (Inr example_body), GetInfo]) ! 2 =
     (200, JObj (model_info example_state)) \<and>
   model_info example_state =
     [(''model_id'', JStr ''openai/whisper-tiny''), (''device'', JStr ''cpu''),
      (''dtype'', JStr ''torch.float32''), (''sample_rate'', JInt 16000)]"
proof -
  note t = model_state_stable
             [OF example_startup, of np_array_float32
                "[GetHealth, PostTranscribe (Inr example_body), GetInfo]"]
  have l: "(0::nat) < length [GetHealth, PostTranscribe (Inr example_body), GetInfo]"
          "(2::nat) < length [GetHealth, PostTranscribe (Inr example_body), GetInfo]"
    by simp_all
  have g: "[GetHealth, PostTranscribe (Inr example_body), GetInfo] ! 0 = GetHealth"
          "[GetHealth, PostTranscribe (Inr example_body), GetInfo] ! 2 = GetInfo"
    by simp_all
  have m: "model_info example_state =
     [(''model_id'', JStr ''openai/whisper-tiny''), (''device'', JStr ''cpu''),
      (''dtype'', JStr ''torch.float32''), (''sample_rate'', JInt 16000)]"
    by (simp add: example_state_def)
  from t l g
  have "snd (serve np_array_float32 example_state
               [GetHealth, PostTranscribe (Inr example_body), GetInfo]) = example_state"
    and "fst (serve np_array_float32 example_state
                [GetHealth, PostTranscribe (Inr example_body), GetInfo]) ! 0 =
     (200, JObj [(''status'', JStr ''healthy''), (''model'', JObj (model_info example_state))])"
    and "fst (serve np_array_float32 example_state
                [GetHealth, PostTranscribe (Inr example_body), GetInfo]) ! 2 =
     (200, JObj (model_info example_state))"
    by blast+
  then show ?thesis using example_startup m by blast
qed

section \<open>A raw result without text or chunks\<close>

text \<open>
  Claim C10. If the model invocation returns without raising, /transcribe responds 200
  also when the raw result lacks the key \<^verbatim>\<open>text\<close> or the key \<^verbatim>\<open>chunks\<close>: the text of the
  response is then the empty string, and the word list the empty list, in place of the
  missing part.
\<close>

theorem missing_result_keys:
  assumes "whisper_pipeline st = Some pipe"
      and "calls (transcribe_audio np st body) = [(input, kwargs)]"
      and "pipe input kwargs = Inr result"
  shows "fst (response (transcribe_audio np st body)) = 200 \<and>
         json_field ''text'' (snd (response (transcribe_audio np st body))) =
           Some (JStr (case result_text result of None \<Rightarrow> [] | Some t \<Rightarrow> t)) \<and>
         (result_chunks result = None \<longrightarrow>
            json_field ''words'' (snd (response (transcribe_audio np st body))) = Some (JList []))"
proof -
  have resp: "response (transcribe_audio np st body) = build_response result"
    using returned_response assms by blast
  show ?thesis unfolding resp
    by (simp add: build_response_def json_field_def extract_words_def split: option.splits)
qed

theorem missing_result_keys_witness:
  "whisper_pipeline bare_state = Some bare_pipeline \<and>
   calls (transcribe_audio np_array_float32 bare_state (Inr example_body)) =
     [(example_input, example_kwargs)] \<and>
   bare_pipeline example_input example_kwargs = Inr bare_result \<and>
   fst (response (transcribe_audio np_array_float32 bare_state (Inr example_body))) = 200 \<and>
   json_field ''text''
     (snd (response (transcribe_audio np_array_float32 bare_state (Inr example_body)))) =
     Some (JStr []) \<and>
   json_field ''words''
     (snd (response (transcribe_audio np_array_float32 bare_state (Inr example_body)))) =
     Some (JList [])"
proof -
  have r: "bare_pipeline example_input example_kwargs = Inr bare_result"
    by (simp add: bare_pipeline_def)
  show ?thesis
    using missing_result_keys [OF bare_ready bare_calls r] bare_ready bare_calls r
    by (simp add: bare_result_def)
qed

end
